theory Spec2Isabelle
  imports Complex_Main "HOL-Library.Sublist" "HOL-Library.AList"
begin

section \<open>Values of the Python runtime\<close>

text \<open>
  The service (\<^verbatim>\<open>ml_model/api.py\<close>) and the trainer (\<^verbatim>\<open>ml_model/train_model.py\<close>)
  are embedded as HOL functions. Exceptions are values of \<open>exc\<close>; a computation that may
  raise and that calls into the fitted objects returns its result together with the list
  of calls it made, in order.

  Python floats are values of a type \<open>'f\<close> that is left open; what the code does with
  them (conversion from integers and from strings, subtraction, division, comparison,
  the test for an infinity) is a parameter of the model, so that rounding, overflow,
  infinities and NaN are whatever the arithmetic of the floats makes them.
\<close>

datatype exc =
    TypeError
  | ValueError
  | OverflowError
  | KeyError "string list"
  | IndexError
  | HTTPException nat
  | LibraryError string

text \<open>The arithmetic of the floats: \<^verbatim>\<open>float(n)\<close> of an integer (\<open>None\<close>: the integer
  is too large, \<^verbatim>\<open>OverflowError\<close>), \<^verbatim>\<open>float(s)\<close> of a string (\<open>None\<close>: the string is
  not a float literal, \<^verbatim>\<open>ValueError\<close>), \<open>x - y\<close>, \<open>x / y\<close>, \<open>x < y\<close>, and whether a
  float is an infinity.\<close>

record 'f arith =
  float_of_int :: "int \<Rightarrow> 'f option"
  float_of_str :: "string \<Rightarrow> 'f option"
  f_sub :: "'f \<Rightarrow> 'f \<Rightarrow> 'f"
  f_div :: "'f \<Rightarrow> 'f \<Rightarrow> 'f"
  f_lt :: "'f \<Rightarrow> 'f \<Rightarrow> bool"
  f_isinf :: "'f \<Rightarrow> bool"

text \<open>A parsed JSON body, as \<^verbatim>\<open>request.get_json()\<close> returns it: \<open>JNull\<close> is \<^verbatim>\<open>None\<close>,
  a number is an \<^verbatim>\<open>int\<close> or a \<^verbatim>\<open>float\<close> (any float, as the parser made it), an
  object is a \<^verbatim>\<open>dict\<close> (the association list is read with \<open>map_of\<close>).\<close>

datatype 'f json =
    JNull
  | JBool bool
  | JInt int
  | JFloat 'f
  | JStr string
  | JArr "'f json list"
  | JObj "(string \<times> 'f json) list"

type_synonym ('e, 'a) comp = "(exc + 'a) \<times> 'e list"

definition ret :: "'a \<Rightarrow> ('e, 'a) comp" where
  "ret x = (Inr x, [])"

definition lift :: "exc + 'a \<Rightarrow> ('e, 'a) comp" where
  "lift r = (r, [])"

definition call :: "'e \<Rightarrow> exc + 'a \<Rightarrow> ('e, 'a) comp" where
  "call ev r = (r, [ev])"

definition bnd :: "('e, 'a) comp \<Rightarrow> ('a \<Rightarrow> ('e, 'b) comp) \<Rightarrow> ('e, 'b) comp" where
  "bnd m f =
     (case m of
        (Inl e, t) \<Rightarrow> (Inl e, t)
      | (Inr x, t) \<Rightarrow> (case f x of (r, t') \<Rightarrow> (r, t @ t')))"

subsection \<open>Operators of Python used by the handler\<close>

text \<open>\<^verbatim>\<open>field in data\<close>: key membership for a dict, element membership for a list,
  substring test for a string, \<^verbatim>\<open>TypeError\<close> for \<^verbatim>\<open>None\<close>, numbers and booleans.\<close>

fun py_in :: "string \<Rightarrow> 'f json \<Rightarrow> exc + bool" where
  "py_in f (JObj kvs) = Inr (map_of kvs f \<noteq> None)"
| "py_in f (JArr vs) = Inr (JStr f \<in> set vs)"
| "py_in f (JStr s) = Inr (sublist f s)"
| "py_in f JNull = Inl TypeError"
| "py_in f (JBool b) = Inl TypeError"
| "py_in f (JInt n) = Inl TypeError"
| "py_in f (JFloat x) = Inl TypeError"

text \<open>\<^verbatim>\<open>data[field]\<close> with a string subscript: a dict looks the key up; lists and
  strings want integer subscripts; the other values are not subscriptable.\<close>

fun getitem :: "'f json \<Rightarrow> string \<Rightarrow> exc + 'f json" where
  "getitem (JObj kvs) k = (case map_of kvs k of None \<Rightarrow> Inl (KeyError [k]) | Some v \<Rightarrow> Inr v)"
| "getitem (JArr vs) k = Inl TypeError"
| "getitem (JStr s) k = Inl TypeError"
| "getitem JNull k = Inl TypeError"
| "getitem (JBool b) k = Inl TypeError"
| "getitem (JInt n) k = Inl TypeError"
| "getitem (JFloat x) k = Inl TypeError"

text \<open>\<^verbatim>\<open>float(v)\<close>: a float is returned as it is; an integer is converted, or is too
  large (\<^verbatim>\<open>OverflowError\<close>); a boolean is the integer 1 or 0; a string is read as a
  float literal, or is none (\<^verbatim>\<open>ValueError\<close>); \<^verbatim>\<open>None\<close>, lists and dicts are refused
  (\<^verbatim>\<open>TypeError\<close>).\<close>

fun py_float :: "'f arith \<Rightarrow> 'f json \<Rightarrow> exc + 'f" where
  "py_float pf (JInt n) = (case float_of_int pf n of None \<Rightarrow> Inl OverflowError | Some x \<Rightarrow> Inr x)"
| "py_float pf (JFloat x) = Inr x"
| "py_float pf (JBool b) =
     (case float_of_int pf (if b then 1 else 0) of None \<Rightarrow> Inl OverflowError | Some x \<Rightarrow> Inr x)"
| "py_float pf (JStr s) = (case float_of_str pf s of None \<Rightarrow> Inl ValueError | Some x \<Rightarrow> Inr x)"
| "py_float pf JNull = Inl TypeError"
| "py_float pf (JArr vs) = Inl TypeError"
| "py_float pf (JObj kvs) = Inl TypeError"

text \<open>\<^verbatim>\<open>xs[i]\<close> on a list: a negative subscript counts from the end.\<close>

definition list_index :: "'a list \<Rightarrow> int \<Rightarrow> exc + 'a" where
  "list_index xs i =
     (if i < - int (length xs) \<or> int (length xs) \<le> i then Inl IndexError
      else if i < 0 then Inr (xs ! nat (int (length xs) + i))
      else Inr (xs ! nat i))"

text \<open>\<^verbatim>\<open>max(xs)\<close>: \<^verbatim>\<open>ValueError\<close> on an empty sequence; else the first entry is kept
  until an entry compares greater than the one kept.\<close>

fun py_max :: "'f arith \<Rightarrow> 'f list \<Rightarrow> exc + 'f" where
  "py_max pf [] = Inl ValueError"
| "py_max pf (x # xs) = Inr (foldl (\<lambda>m y. if f_lt pf m y then y else m) x xs)"

section \<open>The model bundle and the state of the service\<close>

text \<open>The classifier is a fitted object of the learning library: its two methods,
  on one row, are parameters of the model.\<close>

record 'f classifier =
  clf_predict :: "'f list \<Rightarrow> exc + int"
  clf_predict_proba :: "'f list \<Rightarrow> exc + 'f list"

text \<open>The attributes \<^verbatim>\<open>mean_\<close> and \<^verbatim>\<open>scale_\<close> of the scaler.\<close>

record 'f scaler =
  sc_mean :: "'f list"
  sc_scale :: "'f list"

text \<open>Modelled from the spec: the class of the scaler (\<^verbatim>\<open>StandardScaler\<close> of the
  learning library) is not part of the repository. Its transform of one row is
  \<open>(value - mean) / std\<close> per feature, in the arithmetic of the floats. The library
  validates its input first: a row whose width is not the width the scaler was fitted
  on, and a row that holds an infinity, are refused with \<^verbatim>\<open>ValueError\<close>.\<close>

definition transform :: "'f arith \<Rightarrow> 'f scaler \<Rightarrow> 'f list \<Rightarrow> exc + 'f list" where
  "transform pf sc row =
     (if length (sc_mean sc) = length row \<and> length (sc_scale sc) = length row
         \<and> \<not> list_ex (f_isinf pf) row
      then Inr (map (\<lambda>(x, m, s). f_div pf (f_sub pf x m) s) (zip row (zip (sc_mean sc) (sc_scale sc))))
      else Inl ValueError)"

text \<open>The fitted label encoder: its attribute \<^verbatim>\<open>classes_\<close>.\<close>

record label_encoder =
  le_classes :: "string list"

text \<open>The unpickled bundle, a dict. For each key: \<open>None\<close> is an absent key,
  \<open>Some None\<close> a key whose value is \<^verbatim>\<open>None\<close>, \<open>Some (Some v)\<close> a key with the value
  \<open>v\<close>.\<close>

record 'f pickled =
  p_model :: "'f classifier option option"
  p_scaler :: "'f scaler option option"
  p_label_encoder :: "label_encoder option option"
  p_feature_names :: "string list option option"
  p_classes :: "string list option option"

text \<open>The globals \<^verbatim>\<open>bundle\<close> (here \<open>loaded_bundle\<close>), \<^verbatim>\<open>model\<close>, \<^verbatim>\<open>scaler\<close> and
  \<^verbatim>\<open>label_classes\<close> of the module; \<open>None\<close> is \<^verbatim>\<open>None\<close>.\<close>

record 'f globals =
  loaded_bundle :: "'f pickled option"
  model :: "'f classifier option"
  scaler :: "'f scaler option"
  label_classes :: "string list option"

definition initial :: "'f globals" where
  "initial = \<lparr>loaded_bundle = None, model = None, scaler = None, label_classes = Some []\<rparr>"

text \<open>\<^verbatim>\<open>load_model_bundle\<close>: the argument is what opening and unpickling the file gives
  (\<open>None\<close>: it raised). The globals are assigned one by one, each to the value of its
  key, \<^verbatim>\<open>None\<close> included; the first absent key raises, the exception is caught and
  \<^verbatim>\<open>False\<close> returned, with the assignments made so far kept.\<close>

definition load_model_bundle :: "'f pickled option \<Rightarrow> 'f globals \<Rightarrow> 'f globals \<times> bool" where
  "load_model_bundle file st =
     (case file of
        None \<Rightarrow> (st, False)
      | Some b \<Rightarrow>
          let st1 = st\<lparr>loaded_bundle := Some b\<rparr> in
          (case p_model b of
             None \<Rightarrow> (st1, False)
           | Some m \<Rightarrow>
               let st2 = st1\<lparr>model := m\<rparr> in
               (case p_scaler b of
                  None \<Rightarrow> (st2, False)
                | Some s \<Rightarrow>
                    let st3 = st2\<lparr>scaler := s\<rparr> in
                    (case p_classes b of
                       None \<Rightarrow> (st3, False)
                     | Some cs \<Rightarrow>
                         let st4 = st3\<lparr>label_classes := cs\<rparr> in
                         (case p_feature_names b of
                            None \<Rightarrow> (st4, False)
                          | Some fs \<Rightarrow> (st4, True))))))"

definition startup :: "'f pickled option \<Rightarrow> 'f globals" where
  "startup file = fst (load_model_bundle file initial)"

section \<open>The endpoints\<close>

record health_rec =
  h_status :: string
  h_model_loaded :: bool
  h_scaler_loaded :: bool
  h_model_type :: string

record info_rec =
  i_name :: string
  i_version :: string
  i_model :: string
  i_platform :: string
  i_accuracy :: string
  i_features :: "string list"
  i_classes :: "string list option"
  i_endpoints :: "(string \<times> string) list"

record 'f input_rec =
  in_temperature :: 'f
  in_co2 :: 'f
  in_pm25 :: 'f
  in_humidity :: 'f

record 'f prediction_rec =
  r_prediction :: int
  r_label :: string
  r_confidence :: 'f
  r_probabilities :: "(string \<times> 'f) list"
  r_input :: "'f input_rec"

datatype 'f body =
    Error_msg string
  | Error_str exc
  | Health_body health_rec
  | Info_body info_rec
  | Predict_body "'f prediction_rec"

type_synonym 'f response = "'f body \<times> nat"

text \<open>The calls the handler makes: coercions and the methods of the fitted objects.\<close>

datatype 'f event =
    Float_call "'f json"
  | Scaler_transform "'f list"
  | Model_predict "'f list"
  | Model_predict_proba "'f list"

definition index :: "'f globals \<Rightarrow> 'f response" where
  "index st =
     (Info_body \<lparr>i_name = ''Aang Air Quality ML API'', i_version = ''3.0.0'',
        i_model = ''AdaBoost Classifier + StandardScaler'', i_platform = ''Google Cloud Run'',
        i_accuracy = ''96.37%'',
        i_features = [''temperature'', ''co2'', ''pm25'', ''humidity''],
        i_classes = label_classes st,
        i_endpoints = [(''/'', ''API info''), (''/health'', ''Health check''),
                       (''/predict'', ''POST - Predict air quality'')]\<rparr>, 200)"

definition health_check :: "'f globals \<Rightarrow> 'f response \<times> 'f event list" where
  "health_check st =
     ((Health_body \<lparr>h_status = ''healthy'', h_model_loaded = (model st \<noteq> None),
         h_scaler_loaded = (scaler st \<noteq> None),
         h_model_type = ''AdaBoost + StandardScaler''\<rparr>, 200), [])"

definition required_fields :: "string list" where
  "required_fields = [''temperature'', ''co2'', ''pm25'', ''humidity'']"

text \<open>The validation loop: the first required field that is not in the body, if any.\<close>

fun validate :: "'f json \<Rightarrow> string list \<Rightarrow> exc + string option" where
  "validate data [] = Inr None"
| "validate data (f # fs) =
     (case py_in f data of
        Inl e \<Rightarrow> Inl e
      | Inr False \<Rightarrow> Inr (Some f)
      | Inr True \<Rightarrow> validate data fs)"

text \<open>\<^verbatim>\<open>float(data[field])\<close>.\<close>

definition float_field :: "'f arith \<Rightarrow> 'f json \<Rightarrow> string \<Rightarrow> ('f event, 'f) comp" where
  "float_field pf data k =
     bnd (lift (getitem data k)) (\<lambda>v. call (Float_call v) (py_float pf v))"

text \<open>The loop that fills \<^verbatim>\<open>prob_dict\<close>; assignment to a key already present
  overwrites its value.\<close>

fun prob_loop :: "(nat \<times> string) list \<Rightarrow> 'f list \<Rightarrow> (string \<times> 'f) list \<Rightarrow> (string \<times> 'f) list" where
  "prob_loop [] ps d = d"
| "prob_loop ((i, l) # rest) ps d =
     prob_loop rest ps (if i < length ps then AList.update l (ps ! i) d else d)"

text \<open>The end of the \<^verbatim>\<open>try\<close> block of \<^verbatim>\<open>predict\<close>, from \<^verbatim>\<open># Get label\<close> to the
  response: the label, the confidence, the probability dict. \<^verbatim>\<open>len\<close> and
  \<^verbatim>\<open>enumerate\<close> raise \<^verbatim>\<open>TypeError\<close> on \<^verbatim>\<open>None\<close>.\<close>

definition build_response ::
  "'f arith \<Rightarrow> string list option \<Rightarrow> int \<Rightarrow> 'f list \<Rightarrow> 'f \<Rightarrow> 'f \<Rightarrow> 'f \<Rightarrow> 'f \<Rightarrow> exc + 'f response" where
  "build_response pf classes prediction probabilities temp co2 pm25 humidity =
     (case (case classes of
              None \<Rightarrow> Inl TypeError
            | Some labels \<Rightarrow>
                if prediction < int (length labels) then list_index labels prediction
                else Inr ''Unknown'') of
        Inl e \<Rightarrow> Inl e
      | Inr prediction_label \<Rightarrow>
          (case py_max pf probabilities of
             Inl e \<Rightarrow> Inl e
           | Inr confidence \<Rightarrow>
               (case classes of
                  None \<Rightarrow> Inl TypeError
                | Some labels \<Rightarrow>
                    let prob_dict = prob_loop (enumerate 0 labels) probabilities [] in
                    Inr (Predict_body \<lparr>r_prediction = prediction, r_label = prediction_label,
                           r_confidence = confidence, r_probabilities = prob_dict,
                           r_input = \<lparr>in_temperature = temp, in_co2 = co2, in_pm25 = pm25,
                                       in_humidity = humidity\<rparr>\<rparr>, 200))))"

text \<open>The second half of the \<^verbatim>\<open>try\<close> block of \<^verbatim>\<open>predict\<close> (from
  \<^verbatim>\<open>input_raw = np.array(...)\<close> on), on the four coerced values: the scaler, the two
  calls of the classifier, then the response.\<close>

definition infer ::
  "'f arith \<Rightarrow> 'f classifier \<Rightarrow> 'f scaler \<Rightarrow> string list option \<Rightarrow> 'f \<Rightarrow> 'f \<Rightarrow> 'f \<Rightarrow> 'f
     \<Rightarrow> ('f event, 'f response) comp" where
  "infer pf m sc classes temp co2 pm25 humidity =
     (let input_raw = [temp, co2, pm25, humidity] in
      bnd (call (Scaler_transform input_raw) (transform pf sc input_raw)) (\<lambda>input_scaled.
      bnd (call (Model_predict input_scaled) (clf_predict m input_scaled)) (\<lambda>prediction.
      bnd (call (Model_predict_proba input_scaled) (clf_predict_proba m input_scaled)) (\<lambda>probabilities.
      lift (build_response pf classes prediction probabilities temp co2 pm25 humidity)))))"

text \<open>The \<^verbatim>\<open>try\<close> block of \<^verbatim>\<open>predict\<close>, after the check of the globals: the
  body, the validation loop, the four coercions, then the inference.\<close>

definition predict_try ::
  "'f arith \<Rightarrow> 'f classifier \<Rightarrow> 'f scaler \<Rightarrow> string list option \<Rightarrow> exc + 'f json
     \<Rightarrow> ('f event, 'f response) comp" where
  "predict_try pf m sc classes req =
     bnd (lift req) (\<lambda>data.
     bnd (lift (validate data required_fields)) (\<lambda>missing.
       case missing of
         Some field \<Rightarrow> ret (Error_msg (''Missing field: '' @ field), 400)
       | None \<Rightarrow>
     bnd (float_field pf data ''temperature'') (\<lambda>temp.
     bnd (float_field pf data ''co2'') (\<lambda>co2.
     bnd (float_field pf data ''pm25'') (\<lambda>pm25.
     bnd (float_field pf data ''humidity'') (\<lambda>humidity.
     infer pf m sc classes temp co2 pm25 humidity))))))"

text \<open>\<^verbatim>\<open>predict\<close>: the request is what \<^verbatim>\<open>request.get_json()\<close> does (it raises, or
  returns the parsed body). Every exception of the block becomes a 500 response
  carrying \<^verbatim>\<open>str(e)\<close>.\<close>

definition predict :: "'f arith \<Rightarrow> 'f globals \<Rightarrow> exc + 'f json \<Rightarrow> 'f response \<times> 'f event list" where
  "predict pf st req =
     (case (model st, scaler st) of
        (Some m, Some sc) \<Rightarrow>
          (case predict_try pf m sc (label_classes st) req of
             (Inl e, t) \<Rightarrow> ((Error_str e, 500), t)
           | (Inr r, t) \<Rightarrow> (r, t))
      | _ \<Rightarrow> ((Error_msg ''Model or scaler not loaded'', 500), []))"

text \<open>The routes, and the service as it answers a sequence of requests: no handler
  assigns a global, so the state after a request is the state before it.\<close>

datatype 'f request = Get_index | Get_health | Post_predict "exc + 'f json"

definition handle ::
  "'f arith \<Rightarrow> 'f globals \<Rightarrow> 'f request \<Rightarrow> ('f response \<times> 'f event list) \<times> 'f globals" where
  "handle pf st rq =
     (case rq of
        Get_index \<Rightarrow> ((index st, []), st)
      | Get_health \<Rightarrow> (health_check st, st)
      | Post_predict b \<Rightarrow> (predict pf st b, st))"

fun serve :: "'f arith \<Rightarrow> 'f globals \<Rightarrow> 'f request list \<Rightarrow> ('f response \<times> 'f event list) list" where
  "serve pf st [] = []"
| "serve pf st (rq # rqs) = (case handle pf st rq of (out, st') \<Rightarrow> out # serve pf st' rqs)"

section \<open>The trainer\<close>

text \<open>A data frame as \<^verbatim>\<open>pd.read_csv\<close> returns it: its columns by name.\<close>

datatype 'f cell = Num 'f | Txt string

type_synonym 'f frame = "(string \<times> 'f cell list) list"

definition feature_columns :: "string list" where
  "feature_columns = [''air_temperature'', ''CO2'', ''pm2_5'', ''humidity'']"

definition label_column :: string where
  "label_column = ''Air_Quality_Label''"

text \<open>\<^verbatim>\<open>df[[c1, ..., cn]]\<close>: the columns in the order asked for; \<^verbatim>\<open>KeyError\<close> with
  the names that are not columns of the frame.\<close>

definition select_columns :: "'f frame \<Rightarrow> string list \<Rightarrow> exc + 'f frame" where
  "select_columns df cols =
     (case filter (\<lambda>c. map_of df c = None) cols of
        [] \<Rightarrow> Inr (map (\<lambda>c. (c, case map_of df c of None \<Rightarrow> [] | Some col \<Rightarrow> col)) cols)
      | missing \<Rightarrow> Inl (KeyError missing))"

text \<open>\<^verbatim>\<open>df[c]\<close>.\<close>

definition get_column :: "'f frame \<Rightarrow> string \<Rightarrow> exc + 'f cell list" where
  "get_column df c = (case map_of df c of None \<Rightarrow> Inl (KeyError [c]) | Some col \<Rightarrow> Inr col)"

text \<open>The learning libraries are parameters of the model: the label encoder's
  \<^verbatim>\<open>fit_transform\<close> (classes and codes), \<^verbatim>\<open>train_test_split\<close> (features, labels,
  \<^verbatim>\<open>test_size\<close>, \<^verbatim>\<open>random_state\<close>, \<^verbatim>\<open>stratify\<close>; it returns
  \<^verbatim>\<open>X_train, X_test, y_train, y_test\<close>), the oversampler's \<^verbatim>\<open>fit_resample\<close> (with
  its \<^verbatim>\<open>random_state\<close>), the scaler's \<^verbatim>\<open>fit_transform\<close> (the fitted scaler and
  the scaled rows) and \<^verbatim>\<open>transform\<close>, the boosting classifier's \<^verbatim>\<open>fit\<close> (with its
  \<^verbatim>\<open>random_state\<close>) and \<^verbatim>\<open>predict\<close> on a table of rows, and the metrics. Each may
  raise.\<close>

record 'f lib =
  label_fit_transform :: "'f cell list \<Rightarrow> exc + (string list \<times> int list)"
  train_test_split ::
    "'f frame \<Rightarrow> int list \<Rightarrow> real \<Rightarrow> int \<Rightarrow> int list
       \<Rightarrow> exc + ('f frame \<times> 'f frame \<times> int list \<times> int list)"
  smote_fit_resample :: "int \<Rightarrow> 'f frame \<Rightarrow> int list \<Rightarrow> exc + ('f frame \<times> int list)"
  scaler_fit_transform :: "'f frame \<Rightarrow> exc + ('f scaler \<times> 'f list list)"
  scaler_transform :: "'f scaler \<Rightarrow> 'f frame \<Rightarrow> exc + 'f list list"
  adaboost_fit :: "int \<Rightarrow> 'f list list \<Rightarrow> int list \<Rightarrow> exc + 'f classifier"
  model_predict :: "'f classifier \<Rightarrow> 'f list list \<Rightarrow> exc + int list"
  accuracy_score :: "int list \<Rightarrow> int list \<Rightarrow> exc + 'f"
  precision_score :: "int list \<Rightarrow> int list \<Rightarrow> exc + 'f"
  recall_score :: "int list \<Rightarrow> int list \<Rightarrow> exc + 'f"
  f1_score :: "int list \<Rightarrow> int list \<Rightarrow> exc + 'f"
  classification_report :: "int list \<Rightarrow> int list \<Rightarrow> string list \<Rightarrow> exc + string"

text \<open>The calls of the trainer into the libraries, with their arguments.\<close>

datatype 'f train_event =
    Label_fit_transform "'f cell list"
  | Train_test_split "'f frame" "int list" real int "int list"
  | Smote_fit_resample int "'f frame" "int list"
  | Scaler_fit_transform "'f frame"
  | Scaler_transform_held "'f scaler" "'f frame"
  | Adaboost_fit int "'f list list" "int list"
  | Model_predict_held "'f list list"
  | Accuracy_score "int list" "int list"
  | Precision_score "int list" "int list"
  | Recall_score "int list" "int list"
  | F1_score "int list" "int list"
  | Classification_report "int list" "int list" "string list"

text \<open>\<^verbatim>\<open>train_adaboost_model\<close>: the argument \<open>csv\<close> is what \<^verbatim>\<open>pd.read_csv(csv_path)\<close>
  does. Nothing is caught: the first exception ends the training.\<close>

definition train_adaboost_model ::
  "'f lib \<Rightarrow> exc + 'f frame \<Rightarrow> ('f train_event, 'f classifier \<times> 'f scaler \<times> label_encoder) comp" where
  "train_adaboost_model L csv =
     bnd (lift csv) (\<lambda>df.
     bnd (lift (select_columns df feature_columns)) (\<lambda>X.
     bnd (lift (get_column df label_column)) (\<lambda>labels.
     bnd (call (Label_fit_transform labels) (label_fit_transform L labels)) (\<lambda>(classes, y).
     bnd (call (Train_test_split X y (2 / 10) 42 y) (train_test_split L X y (2 / 10) 42 y))
       (\<lambda>(X_train, X_test, y_train, y_test).
     bnd (call (Smote_fit_resample 42 X_train y_train) (smote_fit_resample L 42 X_train y_train))
       (\<lambda>(X_train_smote, y_train_smote).
     bnd (call (Scaler_fit_transform X_train_smote) (scaler_fit_transform L X_train_smote))
       (\<lambda>(scaler, X_train_smote_scaled).
     bnd (call (Scaler_transform_held scaler X_test) (scaler_transform L scaler X_test))
       (\<lambda>X_test_scaled.
     bnd (call (Adaboost_fit 42 X_train_smote_scaled y_train_smote)
            (adaboost_fit L 42 X_train_smote_scaled y_train_smote)) (\<lambda>adaboost_classifier.
     bnd (call (Model_predict_held X_test_scaled) (model_predict L adaboost_classifier X_test_scaled))
       (\<lambda>y_pred.
     bnd (call (Accuracy_score y_test y_pred) (accuracy_score L y_test y_pred)) (\<lambda>accuracy.
     bnd (call (Precision_score y_test y_pred) (precision_score L y_test y_pred)) (\<lambda>precision.
     bnd (call (Recall_score y_test y_pred) (recall_score L y_test y_pred)) (\<lambda>recall.
     bnd (call (F1_score y_test y_pred) (f1_score L y_test y_pred)) (\<lambda>f1.
     bnd (call (Classification_report y_test y_pred classes)
            (classification_report L y_test y_pred classes)) (\<lambda>report.
     ret (adaboost_classifier, scaler, \<lparr>le_classes = classes\<rparr>))))))))))))))))"

text \<open>\<^verbatim>\<open>save_model_bundle\<close>: the dict that is pickled.\<close>

definition save_model_bundle :: "'f classifier \<Rightarrow> 'f scaler \<Rightarrow> label_encoder \<Rightarrow> 'f pickled" where
  "save_model_bundle m sc le =
     \<lparr>p_model = Some (Some m), p_scaler = Some (Some sc), p_label_encoder = Some (Some le),
      p_feature_names = Some (Some [''air_temperature'', ''CO2'', ''pm2_5'', ''humidity'']),
      p_classes = Some (Some (le_classes le))\<rparr>"

section \<open>Example bundles and requests\<close>

text \<open>The examples are over the reals, with their exact arithmetic: integers below
  \<open>2 ^ 1024\<close> in absolute value convert, larger ones overflow; no string is a float
  literal; nothing is an infinity.\<close>

definition no_literals :: "real arith" where
  "no_literals =
     \<lparr>float_of_int = (\<lambda>n. if \<bar>n\<bar> < 2 ^ 1024 then Some (of_int n) else None),
      float_of_str = (\<lambda>s. None),
      f_sub = (\<lambda>x y. x - y), f_div = (\<lambda>x y. x / y), f_lt = (\<lambda>x y. x < y),
      f_isinf = (\<lambda>x. False)\<rparr>"

definition example_classifier :: "real classifier" where
  "example_classifier =
     \<lparr>clf_predict = (\<lambda>row. Inr 0), clf_predict_proba = (\<lambda>row. Inr [7 / 10, 3 / 10])\<rparr>"

text \<open>A classifier whose class codes are not the positions of a label list.\<close>

definition stray_classifier :: "real classifier" where
  "stray_classifier =
     \<lparr>clf_predict = (\<lambda>row. Inr (- 1)), clf_predict_proba = (\<lambda>row. Inr [7 / 10, 3 / 10])\<rparr>"


definition example_scaler :: "real scaler" where
  "example_scaler = \<lparr>sc_mean = [25, 400, 30, 60], sc_scale = [2, 100, 10, 5]\<rparr>"

definition example_encoder :: label_encoder where
  "example_encoder = \<lparr>le_classes = [''Good'', ''Poor'']\<rparr>"


definition example_ready :: "real globals" where
  "example_ready = startup (Some (save_model_bundle example_classifier example_scaler example_encoder))"

definition stray_ready :: "real globals" where
  "stray_ready = startup (Some (save_model_bundle stray_classifier example_scaler example_encoder))"


text \<open>A bundle without the key \<^verbatim>\<open>'scaler'\<close>.\<close>

definition partial_bundle :: "real pickled" where
  "partial_bundle =
     \<lparr>p_model = Some (Some example_classifier), p_scaler = None, p_label_encoder = None,
      p_feature_names = None, p_classes = None\<rparr>"

text \<open>A bundle with all its keys, in which the value of \<^verbatim>\<open>'model'\<close> is \<^verbatim>\<open>None\<close>.\<close>

definition hollow_bundle :: "real pickled" where
  "hollow_bundle =
     \<lparr>p_model = Some None, p_scaler = Some (Some example_scaler),
      p_label_encoder = Some (Some example_encoder),
      p_feature_names = Some (Some [''air_temperature'', ''CO2'', ''pm2_5'', ''humidity'']),
      p_classes = Some (Some [''Good'', ''Poor''])\<rparr>"

definition example_body :: "real json" where
  "example_body =
     JObj [(''temperature'', JFloat (265 / 10)), (''co2'', JInt 450), (''pm25'', JInt 35),
           (''humidity'', JInt 65)]"

text \<open>An integer of 310 digits, and a body whose \<^verbatim>\<open>co2\<close> it is.\<close>

definition huge_int :: int where
  "huge_int = 10 ^ 309"

definition huge_body :: "real json" where
  "huge_body =
     JObj [(''temperature'', JInt 26), (''co2'', JInt huge_int), (''pm25'', JInt 35),
           (''humidity'', JInt 65)]"

definition example_frame :: "real frame" where
  "example_frame =
     [(''air_temperature'', [Num 26, Num 31]), (''CO2'', [Num 450, Num 900]),
      (''pm2_5'', [Num 35, Num 80]), (''humidity'', [Num 65, Num 40]),
      (''Air_Quality_Label'', [Txt ''Good'', Txt ''Poor''])]"

text \<open>A library that splits off the second row, resamples and scales nothing, and
  always fits the example classifier.\<close>

definition example_lib :: "real lib" where
  "example_lib =
     \<lparr>label_fit_transform = (\<lambda>col. Inr ([''Good'', ''Poor''], [0, 1])),
      train_test_split = (\<lambda>X y ts seed strat.
         Inr (map (\<lambda>(c, col). (c, take 1 col)) X, map (\<lambda>(c, col). (c, drop 1 col)) X,
              take 1 y, drop 1 y)),
      smote_fit_resample = (\<lambda>seed X y. Inr (X, y)),
      scaler_fit_transform = (\<lambda>X. Inr (example_scaler, [])),
      scaler_transform = (\<lambda>sc X. Inr []),
      adaboost_fit = (\<lambda>seed X y. Inr example_classifier),
      model_predict = (\<lambda>m X. Inr [1]),
      accuracy_score = (\<lambda>yt yp. Inr 1),
      precision_score = (\<lambda>yt yp. Inr 1),
      recall_score = (\<lambda>yt yp. Inr 1),
      f1_score = (\<lambda>yt yp. Inr 1),
      classification_report = (\<lambda>yt yp names. Inr [])\<rparr>"

section \<open>Sequencing lemmas\<close>

lemma bnd_lift_Inr: "bnd (lift (Inr x)) f = f x"
  by (simp add: bnd_def lift_def split: prod.splits)

lemma bnd_lift_Inl: "bnd (lift (Inl e)) f = (Inl e, [])"
  by (simp add: bnd_def lift_def)

lemma bnd_call_Inr: "bnd (call ev (Inr x)) f = (fst (f x), ev # snd (f x))"
  by (simp add: bnd_def call_def split: prod.splits)

lemma bnd_call_Inl: "bnd (call ev (Inl e)) f = (Inl e, [ev])"
  by (simp add: bnd_def call_def)

lemma bndE:
  assumes "bnd m f = (Inr y, t)"
  obtains x t1 t2 where "m = (Inr x, t1)" "f x = (Inr y, t2)" "t = t1 @ t2"
  using assms by (auto simp: bnd_def split: prod.splits sum.splits)

lemma call_Inr_iff: "call ev r = (Inr x, t) \<longleftrightarrow> r = Inr x \<and> t = [ev]"
  by (auto simp: call_def)

lemma lift_Inr_iff: "lift r = (Inr x, t) \<longleftrightarrow> r = Inr x \<and> t = []"
  by (auto simp: lift_def)

section \<open>The validation loop and the coercions\<close>

lemma validate_missing:
  assumes "f \<in> set required_fields" "map_of kvs f = None"
    "\<forall>g\<in>set required_fields. g \<noteq> f \<longrightarrow> map_of kvs g \<noteq> None"
  shows "validate (JObj kvs) required_fields = Inr (Some f)"
  using assms by (auto simp: required_fields_def)

lemma validate_all:
  "\<forall>g\<in>set required_fields. map_of kvs g \<noteq> None \<Longrightarrow> validate (JObj kvs) required_fields = Inr None"
  by (auto simp: required_fields_def)

lemma validate_Some:
  "validate body fs = Inr (Some f) \<Longrightarrow> f \<in> set fs \<and> py_in f body = Inr False"
  by (induction fs) (auto split: sum.splits bool.splits)

lemma py_in_container:
  "py_in f body = Inr b \<Longrightarrow> (\<exists>kvs. body = JObj kvs) \<or> (\<exists>vs. body = JArr vs) \<or> (\<exists>s. body = JStr s)"
  by (cases body) auto

lemma validate_Some_container:
  assumes "validate body required_fields = Inr (Some f)"
  shows "((\<exists>kvs. body = JObj kvs) \<or> (\<exists>vs. body = JArr vs) \<or> (\<exists>s. body = JStr s))
         \<and> f \<in> set required_fields \<and> py_in f body = Inr False"
  using validate_Some[OF assms] py_in_container[of f body False] by blast

lemma float_field_obj:
  "map_of kvs k = Some v \<Longrightarrow> float_field pf (JObj kvs) k = call (Float_call v) (py_float pf v)"
  by (simp add: float_field_def bnd_lift_Inr)

lemma py_float_exc:
  "py_float pf v = Inl e \<Longrightarrow> e = ValueError \<or> e = TypeError \<or> e = OverflowError"
  by (cases v) (auto split: option.splits)

section \<open>Scaling, maximum and the probability dict\<close>

lemma transform4:
  "transform pf sc [t, c, p, h] =
     (if length (sc_mean sc) = 4 \<and> length (sc_scale sc) = 4
         \<and> \<not> (f_isinf pf t \<or> f_isinf pf c \<or> f_isinf pf p \<or> f_isinf pf h)
      then Inr [f_div pf (f_sub pf t (sc_mean sc ! 0)) (sc_scale sc ! 0),
                f_div pf (f_sub pf c (sc_mean sc ! 1)) (sc_scale sc ! 1),
                f_div pf (f_sub pf p (sc_mean sc ! 2)) (sc_scale sc ! 2),
                f_div pf (f_sub pf h (sc_mean sc ! 3)) (sc_scale sc ! 3)]
      else Inl ValueError)"
proof (cases "length (sc_mean sc) = 4 \<and> length (sc_scale sc) = 4")
  case True
  obtain m0 m1 m2 m3 where m: "sc_mean sc = [m0, m1, m2, m3]"
    using True by (auto simp: numeral_eq_Suc length_Suc_conv)
  obtain s0 s1 s2 s3 where s: "sc_scale sc = [s0, s1, s2, s3]"
    using True by (auto simp: numeral_eq_Suc length_Suc_conv)
  show ?thesis by (simp add: transform_def m s)
next
  case False
  then show ?thesis by (auto simp: transform_def)
qed

lemma foldl_max_mem:
  "foldl (\<lambda>m y. if lt m y then y else m) x xs \<in> set (x # xs)"
proof (induction xs arbitrary: x)
  case Nil
  then show ?case by simp
next
  case (Cons a xs)
  show ?case using Cons[of a] Cons[of x] by (cases "lt x a") auto
qed




lemma py_max_mem: "py_max pf ps = Inr r \<Longrightarrow> r \<in> set ps"
  using foldl_max_mem[of "f_lt pf"] by (cases ps) auto







section \<open>The handler, step by step\<close>

lemma predict_ready:
  assumes "model st = Some m" "scaler st = Some sc"
  shows "predict pf st req =
      (case predict_try pf m sc (label_classes st) req of
             (Inl e, t) \<Rightarrow> ((Error_str e, 500), t)
           | (Inr r, t) \<Rightarrow> (r, t))"
  using assms by (simp add: predict_def)

lemma predict_try_fields:
  assumes "map_of kvs ''temperature'' = Some vt" "py_float pf vt = Inr t"
    "map_of kvs ''co2'' = Some vc" "py_float pf vc = Inr c"
    "map_of kvs ''pm25'' = Some vp" "py_float pf vp = Inr p"
    "map_of kvs ''humidity'' = Some vh" "py_float pf vh = Inr h"
  shows "predict_try pf m sc labels (Inr (JObj kvs)) =
    (fst (infer pf m sc labels t c p h),
     [Float_call vt, Float_call vc, Float_call vp, Float_call vh] @ snd (infer pf m sc labels t c p h))"
proof -
  have "validate (JObj kvs) required_fields = Inr None"
    using assms by (intro validate_all) (auto simp: required_fields_def)
  then show ?thesis
    using assms by (simp add: predict_try_def bnd_lift_Inr float_field_obj bnd_call_Inr)
qed

text \<open>What the inference does, case by case.\<close>

lemma infer_cases:
  "infer pf m sc labels t c p h =
     (case transform pf sc [t, c, p, h] of
        Inl e \<Rightarrow> (Inl e, [Scaler_transform [t, c, p, h]])
      | Inr v \<Rightarrow>
          (case clf_predict m v of
             Inl e \<Rightarrow> (Inl e, [Scaler_transform [t, c, p, h], Model_predict v])
           | Inr k \<Rightarrow>
               (case clf_predict_proba m v of
                  Inl e \<Rightarrow> (Inl e, [Scaler_transform [t, c, p, h], Model_predict v,
                                    Model_predict_proba v])
                | Inr ps \<Rightarrow> (build_response pf labels k ps t c p h,
                      [Scaler_transform [t, c, p, h], Model_predict v, Model_predict_proba v]))))"
  by (simp add: infer_def Let_def bnd_call_Inr bnd_call_Inl lift_def split: sum.splits)

lemma build_response_success:
  assumes "build_response pf labels k ps t c p h = Inr (b, n)"
  shows "\<exists>ls r. labels = Some ls \<and> b = Predict_body r \<and> n = 200 \<and> r_prediction r = k
           \<and> py_max pf ps = Inr (r_confidence r)
           \<and> r_probabilities r = prob_loop (enumerate 0 ls) ps []"
  using assms
  by (auto simp: build_response_def Let_def split: option.splits sum.splits if_splits)

lemma infer_success:
  assumes "infer pf m sc labels t c p h = (Inr (b, n), tr)"
  shows "\<exists>v k ps. Model_predict_proba v \<in> set tr \<and> clf_predict_proba m v = Inr ps
           \<and> build_response pf labels k ps t c p h = Inr (b, n)"
  using assms unfolding infer_cases
  by (auto split: sum.splits)


lemma predict_try_400:
  assumes "predict_try pf m sc labels (Inr body) = (Inr (b, 400), t)"
  shows "\<exists>f. validate body required_fields = Inr (Some f) \<and> b = Error_msg (''Missing field: '' @ f)"
  using assms
  apply (simp add: predict_try_def bnd_lift_Inr)
  apply (elim bndE)
  apply (simp split: option.splits add: ret_def lift_def)
  apply (elim bndE)
  apply (drule infer_success)
  apply (auto dest: build_response_success)
  done


lemma handle_state: "snd (handle pf st rq) = st"
  by (cases rq) (simp_all add: handle_def)

lemma serve_map: "serve pf st rqs = map (\<lambda>rq. fst (handle pf st rq)) rqs"
proof (induction rqs)
  case Nil
  then show ?case by simp
next
  case (Cons rq rqs)
  then show ?case using handle_state[of pf st rq]
    by (cases "handle pf st rq") simp
qed

lemma serve_last: "last (serve pf st (before @ [Post_predict b])) = predict pf st b"
  by (simp add: serve_map handle_def)

section \<open>The examples, evaluated\<close>

lemma no_literals_simps:
  "float_of_str no_literals s = None"
  "f_sub no_literals x y = x - y"
  "f_div no_literals x y = x / y"
  "f_lt no_literals x y = (x < y)"
  "f_isinf no_literals x = False"
  by (simp_all add: no_literals_def)

lemma no_literals_small:
  "\<bar>n\<bar> < 2 ^ 1024 \<Longrightarrow> float_of_int no_literals n = Some (of_int n)"
  by (simp add: no_literals_def)

lemma no_literals_ints:
  "float_of_int no_literals 26 = Some 26"
  "float_of_int no_literals 450 = Some 450"
  "float_of_int no_literals 35 = Some 35"
  "float_of_int no_literals 65 = Some 65"
  by (simp_all add: no_literals_small)

lemma no_literals_huge: "float_of_int no_literals huge_int = None"
  by (simp add: no_literals_def huge_int_def)

lemma example_ready_eq:
  "example_ready =
     \<lparr>loaded_bundle = Some (save_model_bundle example_classifier example_scaler example_encoder),
      model = Some example_classifier, scaler = Some example_scaler,
      label_classes = Some [''Good'', ''Poor'']\<rparr>"
  by (simp add: example_ready_def startup_def load_model_bundle_def save_model_bundle_def
      initial_def example_encoder_def)

lemma stray_ready_eq:
  "stray_ready =
     \<lparr>loaded_bundle = Some (save_model_bundle stray_classifier example_scaler example_encoder),
      model = Some stray_classifier, scaler = Some example_scaler,
      label_classes = Some [''Good'', ''Poor'']\<rparr>"
  by (simp add: stray_ready_def startup_def load_model_bundle_def save_model_bundle_def
      initial_def example_encoder_def)


lemma example_fields:
  "map_of [(''temperature'', JFloat (265 / 10 :: real)), (''co2'', JInt 450), (''pm25'', JInt 35),
           (''humidity'', JInt 65)] ''temperature'' = Some (JFloat (265 / 10))"
  "map_of [(''temperature'', JFloat (265 / 10 :: real)), (''co2'', JInt 450), (''pm25'', JInt 35),
           (''humidity'', JInt 65)] ''co2'' = Some (JInt 450)"
  "map_of [(''temperature'', JFloat (265 / 10 :: real)), (''co2'', JInt 450), (''pm25'', JInt 35),
           (''humidity'', JInt 65)] ''pm25'' = Some (JInt 35)"
  "map_of [(''temperature'', JFloat (265 / 10 :: real)), (''co2'', JInt 450), (''pm25'', JInt 35),
           (''humidity'', JInt 65)] ''humidity'' = Some (JInt 65)"
  "py_float no_literals (JFloat (265 / 10)) = Inr (265 / 10)"
  "py_float no_literals (JInt 450) = Inr 450"
  "py_float no_literals (JInt 35) = Inr 35"
  "py_float no_literals (JInt 65) = Inr 65"
  by (simp_all add: no_literals_ints)

lemma example_transform:
  "transform no_literals example_scaler [265 / 10, 450, 35, 65] = Inr [3 / 4, 1 / 2, 1 / 2, 1]"
  by (simp add: transform4 example_scaler_def no_literals_simps)

lemma example_body_predict:
  assumes "model st = Some m" and "scaler st = Some example_scaler"
  shows "predict no_literals st (Inr example_body) =
     (case infer no_literals m example_scaler (label_classes st) (265 / 10) 450 35 65 of
        (Inl e, t) \<Rightarrow> ((Error_str e, 500),
           [Float_call (JFloat (265 / 10)), Float_call (JInt 450), Float_call (JInt 35),
            Float_call (JInt 65)] @ t)
      | (Inr r, t) \<Rightarrow> (r,
           [Float_call (JFloat (265 / 10)), Float_call (JInt 450), Float_call (JInt 35),
            Float_call (JInt 65)] @ t))"
proof -
  have "predict_try no_literals m example_scaler (label_classes st) (Inr example_body) =
    (fst (infer no_literals m example_scaler (label_classes st) (265 / 10) 450 35 65),
     [Float_call (JFloat (265 / 10)), Float_call (JInt 450), Float_call (JInt 35), Float_call (JInt 65)]
      @ snd (infer no_literals m example_scaler (label_classes st) (265 / 10) 450 35 65))"
    unfolding example_body_def by (rule predict_try_fields[OF example_fields(1,5,2,6,3,7,4,8)])
  then show ?thesis
    unfolding predict_ready[OF assms] by (simp split: prod.splits sum.splits)
qed

lemma example_predict:
  "predict no_literals example_ready (Inr example_body) =
     ((Predict_body \<lparr>r_prediction = 0, r_label = ''Good'', r_confidence = 7 / 10,
         r_probabilities = [(''Good'', 7 / 10), (''Poor'', 3 / 10)],
         r_input = \<lparr>in_temperature = 265 / 10, in_co2 = 450, in_pm25 = 35, in_humidity = 65\<rparr>\<rparr>,
       200),
      [Float_call (JFloat (265 / 10)), Float_call (JInt 450), Float_call (JInt 35),
       Float_call (JInt 65), Scaler_transform [265 / 10, 450, 35, 65],
       Model_predict [3 / 4, 1 / 2, 1 / 2, 1], Model_predict_proba [3 / 4, 1 / 2, 1 / 2, 1]])"
proof -
  have sel: "model example_ready = Some example_classifier"
    "scaler example_ready = Some example_scaler"
    "label_classes example_ready = Some [''Good'', ''Poor'']"
    by (simp_all add: example_ready_eq)
  show ?thesis
    unfolding example_body_predict[OF sel(1,2)] sel(3) infer_cases example_transform
    by (simp add: example_classifier_def build_response_def list_index_def no_literals_simps)
qed

lemma stray_predict:
  "predict no_literals stray_ready (Inr example_body) =
     ((Predict_body \<lparr>r_prediction = - 1, r_label = ''Poor'', r_confidence = 7 / 10,
         r_probabilities = [(''Good'', 7 / 10), (''Poor'', 3 / 10)],
         r_input = \<lparr>in_temperature = 265 / 10, in_co2 = 450, in_pm25 = 35, in_humidity = 65\<rparr>\<rparr>,
       200),
      [Float_call (JFloat (265 / 10)), Float_call (JInt 450), Float_call (JInt 35),
       Float_call (JInt 65), Scaler_transform [265 / 10, 450, 35, 65],
       Model_predict [3 / 4, 1 / 2, 1 / 2, 1], Model_predict_proba [3 / 4, 1 / 2, 1 / 2, 1]])"
proof -
  have sel: "model stray_ready = Some stray_classifier"
    "scaler stray_ready = Some example_scaler"
    "label_classes stray_ready = Some [''Good'', ''Poor'']"
    by (simp_all add: stray_ready_eq)
  show ?thesis
    unfolding example_body_predict[OF sel(1,2)] sel(3) infer_cases example_transform
    by (simp add: stray_classifier_def build_response_def list_index_def no_literals_simps)
qed


section \<open>The inference contract of the service\<close>

text \<open>
  Claim C1. A predict request in the ready state whose four fields are present and are
  coerced to the floats \<open>t, c, p, h\<close>. The handler coerces the fields in the order
  temperature, co2, pm25, humidity and hands \<open>[t, c, p, h]\<close> to the scaler. If the scaler
  refuses the row, the answer is 500 and the classifier is not called. Otherwise the
  vector \<open>v\<close> that the scaler returned is the one handed to \<^verbatim>\<open>predict\<close> and to
  \<^verbatim>\<open>predict_proba\<close> of the classifier, and the response is built from what the
  classifier answered on \<open>v\<close> (an exception of the classifier gives 500). The scaler
  returns, for a row that it does not refuse, \<open>(value[i] - mean[i]) / std[i]\<close> at each of the
  four positions, in the arithmetic of the floats; this is the formula of \<open>transform\<close>,
  which follows the spec's words. The response is the one of the body that holds just
  the four coerced values, and it is the same after any sequence of earlier requests.
\<close>

theorem predict_scaled_vector:
  assumes "model st = Some m" and "scaler st = Some sc"
    and "map_of kvs ''temperature'' = Some vt" and "py_float pf vt = Inr t"
    and "map_of kvs ''co2'' = Some vc" and "py_float pf vc = Inr c"
    and "map_of kvs ''pm25'' = Some vp" and "py_float pf vp = Inr p"
    and "map_of kvs ''humidity'' = Some vh" and "py_float pf vh = Inr h"
  shows "predict pf st (Inr (JObj kvs)) =
       (case transform pf sc [t, c, p, h] of
          Inl e \<Rightarrow> ((Error_str e, 500),
             [Float_call vt, Float_call vc, Float_call vp, Float_call vh,
              Scaler_transform [t, c, p, h]])
        | Inr v \<Rightarrow>
            (case clf_predict m v of
               Inl e \<Rightarrow> ((Error_str e, 500),
                  [Float_call vt, Float_call vc, Float_call vp, Float_call vh,
                   Scaler_transform [t, c, p, h], Model_predict v])
             | Inr k \<Rightarrow>
                 (case clf_predict_proba m v of
                    Inl e \<Rightarrow> ((Error_str e, 500),
                       [Float_call vt, Float_call vc, Float_call vp, Float_call vh,
                        Scaler_transform [t, c, p, h], Model_predict v, Model_predict_proba v])
                  | Inr ps \<Rightarrow>
                      ((case build_response pf (label_classes st) k ps t c p h of
                          Inl e \<Rightarrow> (Error_str e, 500)
                        | Inr r \<Rightarrow> r),
                       [Float_call vt, Float_call vc, Float_call vp, Float_call vh,
                        Scaler_transform [t, c, p, h], Model_predict v, Model_predict_proba v]))))
     \<and> transform pf sc [t, c, p, h] =
         (if length (sc_mean sc) = 4 \<and> length (sc_scale sc) = 4
             \<and> \<not> (f_isinf pf t \<or> f_isinf pf c \<or> f_isinf pf p \<or> f_isinf pf h)
          then Inr (map (\<lambda>i. f_div pf (f_sub pf ([t, c, p, h] ! i) (sc_mean sc ! i)) (sc_scale sc ! i))
                     [0..<4])
          else Inl ValueError)
     \<and> fst (predict pf st (Inr (JObj kvs))) =
         fst (predict pf st (Inr (JObj [(''temperature'', JFloat t), (''co2'', JFloat c),
                                      (''pm25'', JFloat p), (''humidity'', JFloat h)])))
     \<and> (\<forall>before. last (serve pf st (before @ [Post_predict (Inr (JObj kvs))]))
           = predict pf st (Inr (JObj kvs)))"
proof -
  let ?labels = "label_classes st"
  have a: "predict_try pf m sc ?labels (Inr (JObj kvs)) =
    (fst (infer pf m sc ?labels t c p h),
     [Float_call vt, Float_call vc, Float_call vp, Float_call vh] @ snd (infer pf m sc ?labels t c p h))"
    using assms(3-10) by (rule predict_try_fields)
  have b: "predict_try pf m sc ?labels (Inr (JObj [(''temperature'', JFloat t), (''co2'', JFloat c),
                                        (''pm25'', JFloat p), (''humidity'', JFloat h)])) =
    (fst (infer pf m sc ?labels t c p h),
     [Float_call (JFloat t), Float_call (JFloat c), Float_call (JFloat p), Float_call (JFloat h)]
       @ snd (infer pf m sc ?labels t c p h))"
    by (rule predict_try_fields) simp_all
  have 1: "predict pf st (Inr (JObj kvs)) =
       (case transform pf sc [t, c, p, h] of
          Inl e \<Rightarrow> ((Error_str e, 500),
             [Float_call vt, Float_call vc, Float_call vp, Float_call vh,
              Scaler_transform [t, c, p, h]])
        | Inr v \<Rightarrow>
            (case clf_predict m v of
               Inl e \<Rightarrow> ((Error_str e, 500),
                  [Float_call vt, Float_call vc, Float_call vp, Float_call vh,
                   Scaler_transform [t, c, p, h], Model_predict v])
             | Inr k \<Rightarrow>
                 (case clf_predict_proba m v of
                    Inl e \<Rightarrow> ((Error_str e, 500),
                       [Float_call vt, Float_call vc, Float_call vp, Float_call vh,
                        Scaler_transform [t, c, p, h], Model_predict v, Model_predict_proba v])
                  | Inr ps \<Rightarrow>
                      ((case build_response pf (label_classes st) k ps t c p h of
                          Inl e \<Rightarrow> (Error_str e, 500)
                        | Inr r \<Rightarrow> r),
                       [Float_call vt, Float_call vc, Float_call vp, Float_call vh,
                        Scaler_transform [t, c, p, h], Model_predict v, Model_predict_proba v]))))"
    unfolding predict_ready[OF assms(1,2)] a infer_cases
    by (simp split: sum.splits)
  have u: "[0..<4] = [0, 1, 2, Suc 2]" by (simp add: upt_rec numeral_eq_Suc)
  have 2: "transform pf sc [t, c, p, h] =
         (if length (sc_mean sc) = 4 \<and> length (sc_scale sc) = 4
             \<and> \<not> (f_isinf pf t \<or> f_isinf pf c \<or> f_isinf pf p \<or> f_isinf pf h)
          then Inr (map (\<lambda>i. f_div pf (f_sub pf ([t, c, p, h] ! i) (sc_mean sc ! i)) (sc_scale sc ! i))
                     [0..<4])
          else Inl ValueError)"
    unfolding transform4 u by (simp add: eval_nat_numeral)
  have 3: "fst (predict pf st (Inr (JObj kvs))) =
           fst (predict pf st (Inr (JObj [(''temperature'', JFloat t), (''co2'', JFloat c),
                                        (''pm25'', JFloat p), (''humidity'', JFloat h)])))"
    unfolding predict_ready[OF assms(1,2)] a b by (simp split: sum.splits)
  show ?thesis using 1 2 3 serve_last by blast
qed

theorem predict_scaled_vector_witness:
  "model example_ready = Some example_classifier \<and> scaler example_ready = Some example_scaler
   \<and> py_float no_literals (JFloat (265 / 10)) = Inr (265 / 10)
   \<and> py_float no_literals (JInt 450) = Inr 450
   \<and> transform no_literals example_scaler [265 / 10, 450, 35, 65] = Inr [3 / 4, 1 / 2, 1 / 2, 1]
   \<and> predict no_literals example_ready (Inr example_body) =
       ((Predict_body \<lparr>r_prediction = 0, r_label = ''Good'', r_confidence = 7 / 10,
           r_probabilities = [(''Good'', 7 / 10), (''Poor'', 3 / 10)],
           r_input = \<lparr>in_temperature = 265 / 10, in_co2 = 450, in_pm25 = 35,
                       in_humidity = 65\<rparr>\<rparr>, 200),
        [Float_call (JFloat (265 / 10)), Float_call (JInt 450), Float_call (JInt 35),
         Float_call (JInt 65), Scaler_transform [265 / 10, 450, 35, 65],
         Model_predict [3 / 4, 1 / 2, 1 / 2, 1], Model_predict_proba [3 / 4, 1 / 2, 1 / 2, 1]])
   \<and> last (serve no_literals example_ready [Get_health, Post_predict (Inr example_body)])
       = predict no_literals example_ready (Inr example_body)"
proof -
  have h: "model example_ready = Some example_classifier" "scaler example_ready = Some example_scaler"
    by (simp_all add: example_ready_eq)
  have l: "label_classes example_ready = Some [''Good'', ''Poor'']"
    by (simp add: example_ready_eq)
  note T = predict_scaled_vector[OF h example_fields(1,5,2,6,3,7,4,8), folded example_body_def]
  have u: "[0..<4] = [0, 1, 2, Suc 2]" by (simp add: upt_rec numeral_eq_Suc)
  from T have "transform no_literals example_scaler [265 / 10, 450, 35, 65] =
         (if length (sc_mean example_scaler) = 4 \<and> length (sc_scale example_scaler) = 4
             \<and> \<not> (f_isinf no_literals (265 / 10) \<or> f_isinf no_literals 450
                    \<or> f_isinf no_literals 35 \<or> f_isinf no_literals 65)
          then Inr (map (\<lambda>i. f_div no_literals (f_sub no_literals ([265 / 10, 450, 35, 65] ! i)
                       (sc_mean example_scaler ! i)) (sc_scale example_scaler ! i)) [0..<4])
          else Inl ValueError)"
    by blast
  then have tr: "transform no_literals example_scaler [265 / 10, 450, 35, 65] = Inr [3 / 4, 1 / 2, 1 / 2, 1]"
    unfolding u by (simp add: example_scaler_def no_literals_simps eval_nat_numeral)
  from T have P: "predict no_literals example_ready (Inr example_body) =
       ((Predict_body \<lparr>r_prediction = 0, r_label = ''Good'', r_confidence = 7 / 10,
           r_probabilities = [(''Good'', 7 / 10), (''Poor'', 3 / 10)],
           r_input = \<lparr>in_temperature = 265 / 10, in_co2 = 450, in_pm25 = 35,
                       in_humidity = 65\<rparr>\<rparr>, 200),
        [Float_call (JFloat (265 / 10)), Float_call (JInt 450), Float_call (JInt 35),
         Float_call (JInt 65), Scaler_transform [265 / 10, 450, 35, 65],
         Model_predict [3 / 4, 1 / 2, 1 / 2, 1], Model_predict_proba [3 / 4, 1 / 2, 1 / 2, 1]])"
    unfolding tr l
    by (simp add: example_classifier_def build_response_def list_index_def no_literals_simps)
  from T have "\<forall>before. last (serve no_literals example_ready (before @ [Post_predict (Inr example_body)]))
             = predict no_literals example_ready (Inr example_body)"
    by blast
  then have S: "last (serve no_literals example_ready ([Get_health] @ [Post_predict (Inr example_body)]))
             = predict no_literals example_ready (Inr example_body)"
    by (rule spec)
  show ?thesis using h example_fields(5,6) tr P S by simp
qed




text \<open>
  Claim C3, evaluated where it fails. The classifier answers the class code \<open>-1\<close> and
  the label list is \<open>[Good, Poor]\<close>: the response is a success, its prediction \<open>-1\<close> is
  not in \<open>[0, 2)\<close>, and its label is \<open>Poor\<close>, the last label, not \<open>Unknown\<close>. The test
  \<^verbatim>\<open>int(prediction) < len(label_classes)\<close> has no lower bound, and a negative subscript
  counts from the end of the list.
\<close>

theorem predict_negative_index_label:
  "fst (predict no_literals stray_ready (Inr example_body)) =
     (Predict_body \<lparr>r_prediction = - 1, r_label = ''Poor'', r_confidence = 7 / 10,
        r_probabilities = [(''Good'', 7 / 10), (''Poor'', 3 / 10)],
        r_input = \<lparr>in_temperature = 265 / 10, in_co2 = 450, in_pm25 = 35, in_humidity = 65\<rparr>\<rparr>,
      200)"
  unfolding stray_predict by (rule fst_conv)

text \<open>
  Claim C4. In the ready state, a body that is a JSON object lacking exactly one of the
  four required fields, whatever the other fields hold: the response is 400 with the
  message \<open>Missing field: \<close> followed by the name of that field, and no coercion and no
  call to the scaler or the classifier has been made.
\<close>

theorem predict_missing_field:
  assumes "model st = Some m" and "scaler st = Some sc"
    and "f \<in> set required_fields" and "map_of kvs f = None"
    and "\<forall>g\<in>set required_fields. g \<noteq> f \<longrightarrow> map_of kvs g \<noteq> None"
  shows "predict pf st (Inr (JObj kvs)) = ((Error_msg (''Missing field: '' @ f), 400), [])"
  using assms(1,2) validate_missing[OF assms(3,4,5)]
  by (simp add: predict_def predict_try_def bnd_lift_Inr ret_def)

theorem predict_missing_field_witness:
  "model example_ready = Some example_classifier \<and> scaler example_ready = Some example_scaler
   \<and> ''pm25'' \<in> set required_fields
   \<and> predict no_literals example_ready
        (Inr (JObj [(''temperature'', JStr ''warm''), (''co2'', JInt 450), (''humidity'', JNull)]))
      = ((Error_msg ''Missing field: pm25'', 400), [])"
proof -
  have h: "model example_ready = Some example_classifier" "scaler example_ready = Some example_scaler"
    by (simp_all add: example_ready_eq)
  have f: "''pm25'' \<in> set required_fields" by (simp add: required_fields_def)
  have "predict no_literals example_ready
        (Inr (JObj [(''temperature'', JStr ''warm''), (''co2'', JInt 450), (''humidity'', JNull)]))
      = ((Error_msg (''Missing field: '' @ ''pm25''), 400), [])"
    by (rule predict_missing_field[OF h f]) (simp_all add: required_fields_def)
  then show ?thesis using h f by simp
qed

section \<open>Errors of the service\<close>

text \<open>
  Claim C5, as stated, fails where the load stopped after the classifier was assigned:
  the bundle without the key \<^verbatim>\<open>'scaler'\<close> makes \<^verbatim>\<open>load_model_bundle\<close> return
  \<^verbatim>\<open>False\<close> and leaves the scaler absent, and the health call reports
  \<^verbatim>\<open>model_loaded: true\<close>.
\<close>

theorem health_partial_load_counterexample:
  "snd (load_model_bundle (Some partial_bundle) initial) = False
   \<and> scaler (startup (Some partial_bundle)) = None
   \<and> fst (health_check (startup (Some partial_bundle))) =
       (Health_body \<lparr>h_status = ''healthy'', h_model_loaded = True, h_scaler_loaded = False,
          h_model_type = ''AdaBoost + StandardScaler''\<rparr>, 200)"
  by (simp add: startup_def load_model_bundle_def partial_bundle_def initial_def health_check_def)

text \<open>A bundle that has every key, with \<^verbatim>\<open>None\<close> for the classifier: the load returns
  \<^verbatim>\<open>True\<close>, the classifier is absent and the scaler present.\<close>

lemma health_hollow_bundle:
  "snd (load_model_bundle (Some hollow_bundle) initial) = True
   \<and> model (startup (Some hollow_bundle)) = None
   \<and> scaler (startup (Some hollow_bundle)) = Some example_scaler
   \<and> fst (health_check (startup (Some hollow_bundle))) =
       (Health_body \<lparr>h_status = ''healthy'', h_model_loaded = False, h_scaler_loaded = True,
          h_model_type = ''AdaBoost + StandardScaler''\<rparr>, 200)"
  by (simp add: startup_def load_model_bundle_def hollow_bundle_def initial_def health_check_def)

text \<open>
  Claim C5, amended. If the classifier or the scaler is absent, every predict call
  returns 500 with the message \<open>Model or scaler not loaded\<close> before anything else is
  done. In every state the health call returns 200, makes no call and leaves the globals
  as they are; it reports \<^verbatim>\<open>model_loaded\<close> as whether the classifier is present and
  \<^verbatim>\<open>scaler_loaded\<close> as whether the scaler is present, each on its own. Both are absent
  when the bundle file could not be opened or unpickled.
\<close>

theorem unavailable_predict_and_health:
  "(model st = None \<or> scaler st = None \<longrightarrow>
      predict pf st req = ((Error_msg ''Model or scaler not loaded'', 500), []))
   \<and> health_check st =
       ((Health_body \<lparr>h_status = ''healthy'', h_model_loaded = (model st \<noteq> None),
           h_scaler_loaded = (scaler st \<noteq> None),
           h_model_type = ''AdaBoost + StandardScaler''\<rparr>, 200), [])
   \<and> handle pf st Get_health = (health_check st, st)
   \<and> load_model_bundle None st = (st, False)
   \<and> model (startup None :: 'f globals) = None \<and> scaler (startup None :: 'f globals) = None"
proof -
  have 1: "model st = None \<or> scaler st = None \<longrightarrow>
      predict pf st req = ((Error_msg ''Model or scaler not loaded'', 500), [])"
    by (auto simp: predict_def split: option.splits)
  show ?thesis using 1
    by (simp add: health_check_def handle_def startup_def load_model_bundle_def initial_def)
qed

theorem unavailable_predict_and_health_witness:
  "model (startup None :: real globals) = None
   \<and> predict no_literals (startup None) (Inr example_body)
       = ((Error_msg ''Model or scaler not loaded'', 500), [])
   \<and> fst (health_check (startup None :: real globals)) =
       (Health_body \<lparr>h_status = ''healthy'', h_model_loaded = False, h_scaler_loaded = False,
          h_model_type = ''AdaBoost + StandardScaler''\<rparr>, 200)"
proof -
  note T = unavailable_predict_and_health[of "startup None :: real globals" no_literals
      "Inr example_body"]
  from T have m: "model (startup None :: real globals) = None"
    and s: "scaler (startup None :: real globals) = None" by blast+
  from T m have p: "predict no_literals (startup None) (Inr example_body)
       = ((Error_msg ''Model or scaler not loaded'', 500), [])" by blast
  from T have "health_check (startup None :: real globals) =
       ((Health_body \<lparr>h_status = ''healthy'',
           h_model_loaded = (model (startup None :: real globals) \<noteq> None),
           h_scaler_loaded = (scaler (startup None :: real globals) \<noteq> None),
           h_model_type = ''AdaBoost + StandardScaler''\<rparr>, 200), [])" by blast
  then have h: "fst (health_check (startup None :: real globals)) =
       (Health_body \<lparr>h_status = ''healthy'', h_model_loaded = False, h_scaler_loaded = False,
          h_model_type = ''AdaBoost + StandardScaler''\<rparr>, 200)"
    unfolding m s by simp
  show ?thesis using m p h by blast
qed

text \<open>
  Claim C6. In the ready state, a body that is a JSON object with the four fields
  present, one of which \<^verbatim>\<open>float\<close> refuses: the response is 500 and carries the text of
  the exception that \<^verbatim>\<open>float\<close> raised on one of the four field values (a
  \<^verbatim>\<open>ValueError\<close>, a \<^verbatim>\<open>TypeError\<close> or, for an integer too large for a float, an
  \<^verbatim>\<open>OverflowError\<close>), not a missing-field message; only coercions have been made, the
  scaler and the classifier were not called. The globals are unchanged and the requests
  that follow are answered as they would have been.
\<close>

theorem predict_not_coercible:
  assumes "model st = Some m" and "scaler st = Some sc"
    and "\<forall>g\<in>set required_fields. map_of kvs g \<noteq> None"
    and "\<exists>g\<in>set required_fields. \<exists>v. map_of kvs g = Some v \<and> isl (py_float pf v)"
  shows "\<exists>e t g v. predict pf st (Inr (JObj kvs)) = ((Error_str e, 500), t)
           \<and> g \<in> set required_fields \<and> map_of kvs g = Some v \<and> py_float pf v = Inl e
           \<and> (e = ValueError \<or> e = TypeError \<or> e = OverflowError)
           \<and> (\<forall>ev\<in>set t. \<exists>j. ev = Float_call j)
           \<and> snd (handle pf st (Post_predict (Inr (JObj kvs)))) = st
           \<and> (\<forall>rqs. serve pf st (Post_predict (Inr (JObj kvs)) # rqs)
                 = predict pf st (Inr (JObj kvs)) # serve pf st rqs)"
proof -
  obtain vt vc vp vh where f: "map_of kvs ''temperature'' = Some vt" "map_of kvs ''co2'' = Some vc"
     "map_of kvs ''pm25'' = Some vp" "map_of kvs ''humidity'' = Some vh"
    using assms(3) by (auto simp: required_fields_def)
  have v: "validate (JObj kvs) required_fields = Inr None"
    using assms(3) by (rule validate_all)
  have bad: "isl (py_float pf vt) \<or> isl (py_float pf vc) \<or> isl (py_float pf vp) \<or> isl (py_float pf vh)"
    using assms(4) f by (auto simp: required_fields_def)
  note P = predict_ready[OF assms(1,2)]
  have "\<exists>e t g v. predict pf st (Inr (JObj kvs)) = ((Error_str e, 500), t)
           \<and> g \<in> set required_fields \<and> map_of kvs g = Some v \<and> py_float pf v = Inl e
           \<and> (\<forall>ev\<in>set t. \<exists>j. ev = Float_call j)"
  proof (cases "py_float pf vt")
    case (Inl e)
    then show ?thesis using f v
      by (intro exI[of _ e] exI[of _ "[Float_call vt]"] exI[of _ "''temperature''"] exI[of _ vt])
         (simp add: P predict_try_def bnd_lift_Inr float_field_obj bnd_call_Inl required_fields_def)
  next
    case t: (Inr t)
    show ?thesis
    proof (cases "py_float pf vc")
      case (Inl e)
      then show ?thesis using f v t
        by (intro exI[of _ e] exI[of _ "[Float_call vt, Float_call vc]"] exI[of _ "''co2''"] exI[of _ vc])
          (simp add: P predict_try_def bnd_lift_Inr float_field_obj bnd_call_Inl bnd_call_Inr required_fields_def)
    next
      case c: (Inr c)
      show ?thesis
      proof (cases "py_float pf vp")
        case (Inl e)
        then show ?thesis using f v t c
          by (intro exI[of _ e] exI[of _ "[Float_call vt, Float_call vc, Float_call vp]"] exI[of _ "''pm25''"] exI[of _ vp])
            (simp add: P predict_try_def bnd_lift_Inr float_field_obj bnd_call_Inl bnd_call_Inr required_fields_def)
      next
        case p: (Inr p)
        then obtain e where e: "py_float pf vh = Inl e"
          using bad t c by (cases "py_float pf vh") auto
        then show ?thesis using f v t c p
          by (intro exI[of _ e] exI[of _ "[Float_call vt, Float_call vc, Float_call vp, Float_call vh]"] exI[of _ "''humidity''"] exI[of _ vh])
            (simp add: P predict_try_def bnd_lift_Inr float_field_obj bnd_call_Inl bnd_call_Inr required_fields_def)
      qed
    qed
  qed
  then obtain e t g v where *: "predict pf st (Inr (JObj kvs)) = ((Error_str e, 500), t)"
     "g \<in> set required_fields" "map_of kvs g = Some v" "py_float pf v = Inl e"
     "\<forall>ev\<in>set t. \<exists>j. ev = Float_call j" by blast
  have s: "\<forall>rqs. serve pf st (Post_predict (Inr (JObj kvs)) # rqs)
                 = predict pf st (Inr (JObj kvs)) # serve pf st rqs"
    by (simp add: handle_def)
  show ?thesis using * py_float_exc[OF *(4)] handle_state[of pf st] s by blast
qed

theorem predict_not_coercible_witness:
  "model example_ready = Some example_classifier \<and> scaler example_ready = Some example_scaler
   \<and> py_float no_literals (JInt huge_int) = Inl OverflowError
   \<and> predict no_literals example_ready (Inr huge_body)
       = ((Error_str OverflowError, 500), [Float_call (JInt 26), Float_call (JInt huge_int)])
   \<and> serve no_literals example_ready [Post_predict (Inr huge_body), Post_predict (Inr example_body)]
      = [predict no_literals example_ready (Inr huge_body),
         predict no_literals example_ready (Inr example_body)]"
proof -
  let ?K = "[(''temperature'', JInt 26), (''co2'', JInt huge_int), (''pm25'', JInt 35),
             (''humidity'', JInt 65 :: real json)]"
  have h: "model example_ready = Some example_classifier" "scaler example_ready = Some example_scaler"
    by (simp_all add: example_ready_eq)
  have a: "\<forall>g\<in>set required_fields. map_of ?K g \<noteq> None"
    by (simp add: required_fields_def)
  have n: "py_float no_literals (JInt huge_int) = Inl OverflowError"
    by (simp add: no_literals_huge)
  have b: "\<exists>g\<in>set required_fields. \<exists>v. map_of ?K g = Some v \<and> isl (py_float no_literals v)"
    unfolding required_fields_def
    by (rule bexI[of _ "''co2''"], rule exI[of _ "JInt huge_int"]) (simp_all add: no_literals_huge)
  from predict_not_coercible[OF h a b, folded huge_body_def] obtain e t g v where
    *: "predict no_literals example_ready (Inr huge_body) = ((Error_str e, 500), t)"
       "\<forall>rqs. serve no_literals example_ready (Post_predict (Inr huge_body) # rqs)
          = predict no_literals example_ready (Inr huge_body) # serve no_literals example_ready rqs"
    by blast
  have v: "validate (JObj ?K) required_fields = Inr None"
    using a by (rule validate_all)
  have P: "predict no_literals example_ready (Inr huge_body)
       = ((Error_str OverflowError, 500), [Float_call (JInt 26), Float_call (JInt huge_int)])"
    unfolding predict_ready[OF h] huge_body_def predict_try_def
    by (simp add: bnd_lift_Inr v float_field_def bnd_call_Inr bnd_call_Inl no_literals_huge
        no_literals_ints)
  have "serve no_literals example_ready [Post_predict (Inr huge_body), Post_predict (Inr example_body)]
      = predict no_literals example_ready (Inr huge_body)
         # serve no_literals example_ready [Post_predict (Inr example_body)]"
    using *(2) by blast
  then have s: "serve no_literals example_ready [Post_predict (Inr huge_body), Post_predict (Inr example_body)]
      = [predict no_literals example_ready (Inr huge_body),
         predict no_literals example_ready (Inr example_body)]"
    by (simp add: handle_def)
  show ?thesis using h n P s by blast
qed

text \<open>
  Claim C10, as stated, fails on a body that is a JSON array: the membership test
  \<^verbatim>\<open>field not in data\<close> works on a list, so the empty array gets the 400 response for the
  first required field although the body is not an object.
\<close>

theorem predict_array_body_counterexample:
  "predict no_literals example_ready (Inr (JArr []))
     = ((Error_msg ''Missing field: temperature'', 400), [])"
  by (simp add: example_ready_eq predict_def predict_try_def bnd_lift_Inr ret_def
      required_fields_def)

text \<open>
  Claim C10, amended. In the ready state, a request whose parsed body is \<^verbatim>\<open>None\<close> gets
  the 500 response of the generic \<^verbatim>\<open>except\<close> branch (the membership test raises
  \<^verbatim>\<open>TypeError\<close>), not a 400, and so does a request on which \<^verbatim>\<open>get_json\<close> raises. A
  400 response is reached only when the body is a JSON object, array or string; it then
  names a required field that the membership test does not find in the body.
\<close>

theorem predict_no_body:
  assumes "model st = Some m" and "scaler st = Some sc"
  shows "predict pf st (Inr JNull) = ((Error_str TypeError, 500), [])
       \<and> (\<forall>e. predict pf st (Inl e) = ((Error_str e, 500), []))
       \<and> (\<forall>body b t. predict pf st (Inr body) = ((b, 400), t) \<longrightarrow>
            ((\<exists>kvs. body = JObj kvs) \<or> (\<exists>vs. body = JArr vs) \<or> (\<exists>s. body = JStr s))
            \<and> (\<exists>f\<in>set required_fields. py_in f body = Inr False
                  \<and> b = Error_msg (''Missing field: '' @ f)))"
proof -
  have 1: "predict pf st (Inr JNull) = ((Error_str TypeError, 500), [])"
    using assms by (simp add: predict_def predict_try_def bnd_lift_Inr bnd_lift_Inl required_fields_def)
  have 2: "\<forall>e. predict pf st (Inl e) = ((Error_str e, 500), [])"
    using assms by (simp add: predict_def predict_try_def bnd_lift_Inl)
  have 3: "((\<exists>kvs. body = JObj kvs) \<or> (\<exists>vs. body = JArr vs) \<or> (\<exists>s. body = JStr s))
            \<and> (\<exists>f\<in>set required_fields. py_in f body = Inr False
                  \<and> b = Error_msg (''Missing field: '' @ f))"
    if "predict pf st (Inr body) = ((b, 400), t)" for body b t
  proof -
    from that assms have "predict_try pf m sc (label_classes st) (Inr body) = (Inr (b, 400), t)"
      by (auto simp: predict_def split: prod.splits sum.splits)
    from predict_try_400[OF this] obtain f where
      f: "validate body required_fields = Inr (Some f)" "b = Error_msg (''Missing field: '' @ f)"
      by blast
    from validate_Some_container[OF f(1)] f(2) show ?thesis by blast
  qed
  show ?thesis using 1 2 3 by blast
qed

theorem predict_no_body_witness:
  "model example_ready = Some example_classifier \<and> scaler example_ready = Some example_scaler
   \<and> predict no_literals example_ready (Inr JNull) = ((Error_str TypeError, 500), [])
   \<and> predict no_literals example_ready (Inl (HTTPException 415))
       = ((Error_str (HTTPException 415), 500), [])"
proof -
  have h: "model example_ready = Some example_classifier" "scaler example_ready = Some example_scaler"
    by (simp_all add: example_ready_eq)
  show ?thesis using predict_no_body[OF h, of no_literals] h by blast
qed

section \<open>The trainer's pipeline\<close>

text \<open>
  Claim C7. Whenever the training succeeds, its calls into the libraries are, in this
  order: the label encoding; one split of the features and codes with test size 0.2,
  seed 42 and stratification on the codes; one oversampling, with seed 42, of exactly the
  training part of that split; one fit of the scaler, on the oversampled training
  features; the transform of the held-out features of the split by the scaler that this
  fit returned (the scaler the trainer returns); the fit of the classifier on the scaled
  oversampled training data; its prediction on the scaled held-out features; and the
  metrics on the held-out codes of the split. The held-out part is an argument of no
  oversampling and of no fit.
\<close>

theorem train_dataflow:
  assumes "train_adaboost_model L csv = (Inr (m, sc, le), tr)"
  shows "\<exists>df X labels y X_train X_test y_train y_test X_smote y_smote X_smote_scaled X_test_scaled y_pred.
      csv = Inr df \<and> select_columns df feature_columns = Inr X
    \<and> get_column df label_column = Inr labels
    \<and> label_fit_transform L labels = Inr (le_classes le, y)
    \<and> train_test_split L X y (2 / 10) 42 y = Inr (X_train, X_test, y_train, y_test)
    \<and> smote_fit_resample L 42 X_train y_train = Inr (X_smote, y_smote)
    \<and> scaler_fit_transform L X_smote = Inr (sc, X_smote_scaled)
    \<and> scaler_transform L sc X_test = Inr X_test_scaled
    \<and> adaboost_fit L 42 X_smote_scaled y_smote = Inr m
    \<and> model_predict L m X_test_scaled = Inr y_pred
    \<and> tr = [Label_fit_transform labels,
             Train_test_split X y (2 / 10) 42 y,
             Smote_fit_resample 42 X_train y_train,
             Scaler_fit_transform X_smote,
             Scaler_transform_held sc X_test,
             Adaboost_fit 42 X_smote_scaled y_smote,
             Model_predict_held X_test_scaled,
             Accuracy_score y_test y_pred, Precision_score y_test y_pred,
             Recall_score y_test y_pred, F1_score y_test y_pred,
             Classification_report y_test y_pred (le_classes le)]"
  apply (insert assms[unfolded train_adaboost_model_def])
  apply (erule bndE, clarsimp simp: call_Inr_iff lift_Inr_iff)+
  apply (clarsimp simp: ret_def)
  done

theorem train_dataflow_witness:
  "fst (train_adaboost_model example_lib (Inr example_frame))
     = Inr (example_classifier, example_scaler, example_encoder)
   \<and> (\<exists>X y X_train X_test y_train y_test X_smote y_smote.
        train_test_split example_lib X y (2 / 10) 42 y = Inr (X_train, X_test, y_train, y_test)
      \<and> smote_fit_resample example_lib 42 X_train y_train = Inr (X_smote, y_smote)
      \<and> take 5 (snd (train_adaboost_model example_lib (Inr example_frame)))
          = [Label_fit_transform [Txt ''Good'', Txt ''Poor''],
             Train_test_split X y (2 / 10) 42 y,
             Smote_fit_resample 42 X_train y_train,
             Scaler_fit_transform X_smote,
             Scaler_transform_held example_scaler X_test])"
proof -
  have f: "fst (train_adaboost_model example_lib (Inr example_frame))
     = Inr (example_classifier, example_scaler, example_encoder)"
    by (simp add: train_adaboost_model_def example_lib_def example_frame_def select_columns_def
        get_column_def feature_columns_def label_column_def bnd_lift_Inr bnd_call_Inr ret_def
        example_encoder_def)
  then have "train_adaboost_model example_lib (Inr example_frame)
     = (Inr (example_classifier, example_scaler, example_encoder),
        snd (train_adaboost_model example_lib (Inr example_frame)))"
    by (metis prod.collapse)
  from train_dataflow[OF this] obtain df X labels y X_train X_test y_train y_test X_smote y_smote
      X_smote_scaled X_test_scaled y_pred where
    *: "Inr example_frame = (Inr df :: exc + real frame)" "get_column df label_column = Inr labels"
      "train_test_split example_lib X y (2 / 10) 42 y = Inr (X_train, X_test, y_train, y_test)"
      "smote_fit_resample example_lib 42 X_train y_train = Inr (X_smote, y_smote)"
      "snd (train_adaboost_model example_lib (Inr example_frame)) =
            [Label_fit_transform labels,
             Train_test_split X y (2 / 10) 42 y,
             Smote_fit_resample 42 X_train y_train,
             Scaler_fit_transform X_smote,
             Scaler_transform_held example_scaler X_test,
             Adaboost_fit 42 X_smote_scaled y_smote,
             Model_predict_held X_test_scaled,
             Accuracy_score y_test y_pred, Precision_score y_test y_pred,
             Recall_score y_test y_pred, F1_score y_test y_pred,
             Classification_report y_test y_pred (le_classes example_encoder)]"
    by blast
  from *(1,2) have l: "labels = [Txt ''Good'', Txt ''Poor'']"
    by (auto simp: get_column_def example_frame_def label_column_def)
  have "take 5 (snd (train_adaboost_model example_lib (Inr example_frame)))
          = [Label_fit_transform [Txt ''Good'', Txt ''Poor''],
             Train_test_split X y (2 / 10) 42 y,
             Smote_fit_resample 42 X_train y_train,
             Scaler_fit_transform X_smote,
             Scaler_transform_held example_scaler X_test]"
    unfolding *(5) l by (simp add: eval_nat_numeral)
  then show ?thesis using f *(3,4) by blast
qed

text \<open>
  Claim C8. If one of the four feature columns or the label column is not a column of
  the data set, the training ends with a \<^verbatim>\<open>KeyError\<close> that names columns, all of them
  required and absent, and no call into the libraries has been made: no label encoding,
  split, oversampling, scaling or classifier fit; nothing is returned.
\<close>

theorem train_missing_column:
  assumes "c \<in> set (feature_columns @ [label_column])" and "map_of df c = None"
  shows "\<exists>missing. train_adaboost_model L (Inr df) = (Inl (KeyError missing), [])
           \<and> missing \<noteq> [] \<and> set missing \<subseteq> set (feature_columns @ [label_column])
           \<and> (\<forall>k\<in>set missing. map_of df k = None)"
proof (cases "filter (\<lambda>c. map_of df c = None) feature_columns")
  case Nil
  then have "\<forall>k\<in>set feature_columns. map_of df k \<noteq> None"
    by (simp add: filter_empty_conv)
  with assms have c: "c = label_column" by auto
  have "select_columns df feature_columns
      = Inr (map (\<lambda>c. (c, case map_of df c of None \<Rightarrow> [] | Some col \<Rightarrow> col)) feature_columns)"
    using Nil by (simp add: select_columns_def)
  moreover have "get_column df label_column = Inl (KeyError [label_column])"
    using assms(2) c by (simp add: get_column_def)
  ultimately have "train_adaboost_model L (Inr df) = (Inl (KeyError [label_column]), [])"
    by (simp add: train_adaboost_model_def bnd_lift_Inr bnd_lift_Inl)
  then show ?thesis using assms(2) c by auto
next
  case (Cons k ks)
  then have "select_columns df feature_columns = Inl (KeyError (k # ks))"
    by (simp add: select_columns_def)
  then have "train_adaboost_model L (Inr df) = (Inl (KeyError (k # ks)), [])"
    by (simp add: train_adaboost_model_def bnd_lift_Inr bnd_lift_Inl)
  moreover have "set (k # ks) \<subseteq> set feature_columns" "\<forall>x\<in>set (k # ks). map_of df x = None"
    using Cons[symmetric] by auto
  ultimately show ?thesis by auto
qed

theorem train_missing_column_witness:
  "''CO2'' \<in> set (feature_columns @ [label_column])
   \<and> map_of (filter (\<lambda>(name, col). name \<noteq> ''CO2'') example_frame) ''CO2'' = None
   \<and> train_adaboost_model example_lib
        (Inr (filter (\<lambda>(name, col). name \<noteq> ''CO2'') example_frame))
      = (Inl (KeyError [''CO2'']), [])"
proof -
  let ?df = "filter (\<lambda>(name, col). name \<noteq> ''CO2'') example_frame"
  have a: "''CO2'' \<in> set (feature_columns @ [label_column])"
    by (simp add: feature_columns_def)
  have b: "map_of ?df ''CO2'' = None" by (simp add: example_frame_def)
  from train_missing_column[OF a b, of example_lib] obtain missing where
    *: "train_adaboost_model example_lib (Inr ?df) = (Inl (KeyError missing), [])"
       "missing \<noteq> []" "set missing \<subseteq> set (feature_columns @ [label_column])"
       "\<forall>k\<in>set missing. map_of ?df k = None"
    by blast
  have "train_adaboost_model example_lib (Inr ?df) = (Inl (KeyError [''CO2'']), [])"
    by (simp add: train_adaboost_model_def example_frame_def select_columns_def
        feature_columns_def bnd_lift_Inr bnd_lift_Inl)
  then show ?thesis using a b * by blast
qed

end
